theory Spec2Isabelle
  imports Main "HOL-Library.Word" "HOL-Library.AList"
begin

section \<open>Go values, slices and call outcomes\<close>

text \<open>
  Machine types of the Go source.  A \<open>float64\<close> is carried as its IEEE-754 bit pattern:
  the message code only stores and copies doubles, it never computes with them.
\<close>

type_synonym byte = "8 word"
type_synonym int32 = "32 word"
type_synonym int64 = "64 word"
type_synonym float64 = "64 word"

text \<open>
  A call either returns a result, or panics.  Both carry the state the call left behind,
  since Go code mutates its receiver and arguments in place before it panics.
\<close>

datatype ('r, 's) outcome = Returns 'r 's | Panics 's

text \<open>
  A Go slice is a window on a backing array: \<open>elems\<close> are the \<open>len\<close> visible elements,
  \<open>spare\<close> the rest of the backing array up to \<open>cap\<close>.  A nil slice has both empty.
\<close>

record 'a slice =
  elems :: "'a list"
  spare :: "'a list"

definition len :: "'a slice \<Rightarrow> nat" where
  "len s = length (elems s)"

definition cap :: "'a slice \<Rightarrow> nat" where
  "cap s = length (elems s) + length (spare s)"

definition nil_slice :: "'a slice" where
  "nil_slice = \<lparr>elems = [], spare = []\<rparr>"

text \<open>
  The growth code written out five times in \<open>Field.AddValue\<close> and once in
  \<open>Message.AddField\<close>:
  \<^verbatim>\<open>
  l := len(s); c := cap(s)
  if l == c { tmp := make([]T, l+1, c*2+1); copy(tmp, s); s = tmp }
  else      { s = s[0 : l+1] }
  \<close>
  \<open>z\<close> is the zero value of \<open>T\<close> that \<open>make\<close> fills in.  When \<open>l \<noteq> c\<close> the reslice
  uncovers the stale element of the backing array at index \<open>l\<close>.
\<close>

definition grow :: "'a \<Rightarrow> 'a slice \<Rightarrow> 'a slice" where
  "grow z s =
     (if len s = cap s
      then \<lparr>elems = elems s @ [z], spare = replicate (cap s * 2 + 1 - (len s + 1)) z\<rparr>
      else \<lparr>elems = elems s @ [hd (spare s)], spare = tl (spare s)\<rparr>)"

text \<open>\<open>s[i] = x\<close> for an index inside the window.\<close>

definition store :: "nat \<Rightarrow> 'a \<Rightarrow> 'a slice \<Rightarrow> 'a slice" where
  "store i x s = s\<lparr>elems := (elems s)[i := x]\<rparr>"

text \<open>\<open>s[:cap(s)]\<close>: the window is widened over the whole backing array.\<close>

definition full_slice :: "'a slice \<Rightarrow> 'a slice" where
  "full_slice s = \<lparr>elems = elems s @ spare s, spare = []\<rparr>"

text \<open>\<open>copy(dst, src)\<close> on byte slices: the first \<open>min (len dst) (len src)\<close> bytes are overwritten.\<close>

definition copy_bytes :: "byte list \<Rightarrow> byte list \<Rightarrow> byte list" where
  "copy_bytes dst src = take (length dst) src @ drop (length src) dst"

subsection \<open>Decimal printing (\<open>%d\<close>)\<close>

fun show_nat :: "nat \<Rightarrow> string" where
  "show_nat n =
     (if n < 10 then [char_of (48 + n)]
      else show_nat (n div 10) @ [char_of (48 + n mod 10)])"

definition show_int :: "int \<Rightarrow> string" where
  "show_int i = (if i < 0 then CHR ''-'' # show_nat (nat (- i)) else show_nat (nat i))"

subsection \<open>Values behind \<open>interface{}\<close>, as \<open>reflect\<close> sees them\<close>

text \<open>
  \<open>getValueType\<close> switches on \<open>reflect.Value.Kind()\<close>; the value type below has one
  constructor for each class of kinds that the switch tells apart.  \<open>Nil\<close> is the nil
  interface (kind \<open>Invalid\<close>); \<open>OtherSeq\<close> an array or slice whose element kind is not
  \<open>Uint8\<close> and \<open>Other\<close> any remaining kind (unsigned integers, maps, pointers, structs,
  ...), both with their Go type name.
\<close>

datatype int_kind = KInt | KInt8 | KInt16 | KInt32 | KInt64
datatype float_kind = KFloat32 | KFloat64
datatype seq_kind = KArray | KSlice

datatype go_value =
    Nil
  | Str string
  | IntV int_kind int64
  | FloatV float_kind float64
  | BoolV bool
  | ByteSeq seq_kind "byte list"
  | OtherSeq seq_kind string
  | Other string

fun type_name :: "go_value \<Rightarrow> string" where
  "type_name Nil = ''invalid''"
| "type_name (Str s) = ''string''"
| "type_name (IntV KInt i) = ''int''"
| "type_name (IntV KInt8 i) = ''int8''"
| "type_name (IntV KInt16 i) = ''int16''"
| "type_name (IntV KInt32 i) = ''int32''"
| "type_name (IntV KInt64 i) = ''int64''"
| "type_name (FloatV KFloat32 d) = ''float32''"
| "type_name (FloatV KFloat64 d) = ''float64''"
| "type_name (BoolV b) = ''bool''"
| "type_name (ByteSeq KSlice bs) = ''[]uint8''"
| "type_name (ByteSeq KArray bs) = ''['' @ show_nat (length bs) @ '']uint8''"
| "type_name (OtherSeq k t) = t"
| "type_name (Other t) = t"

text \<open>
  The accessors of \<open>reflect.Value\<close>.  \<open>String()\<close> never panics: on a value that is not a
  string it yields the placeholder \<open><T Value>\<close>.  \<open>Bytes()\<close>, \<open>Int()\<close>, \<open>Float()\<close> and
  \<open>Bool()\<close> panic (\<open>None\<close>) on a value of another kind; \<open>Bytes()\<close> accepts a slice of
  bytes only, not an array.
\<close>

fun reflect_String :: "go_value \<Rightarrow> string" where
  "reflect_String (Str s) = s"
| "reflect_String v = ''<'' @ type_name v @ '' Value>''"

fun reflect_Bytes :: "go_value \<Rightarrow> byte list option" where
  "reflect_Bytes (ByteSeq KSlice bs) = Some bs"
| "reflect_Bytes v = None"

fun reflect_Int :: "go_value \<Rightarrow> int64 option" where
  "reflect_Int (IntV k i) = Some i"
| "reflect_Int v = None"

fun reflect_Float :: "go_value \<Rightarrow> float64 option" where
  "reflect_Float (FloatV k d) = Some d"
| "reflect_Float v = None"

fun reflect_Bool :: "go_value \<Rightarrow> bool option" where
  "reflect_Bool (BoolV b) = Some b"
| "reflect_Bool v = None"

section \<open>Messages and fields (message.go)\<close>

text \<open>
  Modelled from the spec: the declarations of the structs \<open>Message\<close> and \<open>Field\<close> and of
  the enums \<open>Field_ValueType\<close> and \<open>Field_ValueFormat\<close>, which are in the generated file
  message.pb.go and not among the sources.  The attributes are those of the data model of
  the spec, with the names and types that message.go uses them under: every scalar
  attribute may be absent and is a pointer (\<open>None\<close> is nil), every sequence is a slice.
  The value types are the closed set STRING, BYTES, INTEGER, DOUBLE, BOOL in this order,
  which makes \<open>Field_STRING\<close> the zero value of the enum.  Of the formats message.go
  names \<open>Field_RAW\<close> only.
\<close>

datatype Field_ValueType = Field_STRING | Field_BYTES | Field_INTEGER | Field_DOUBLE | Field_BOOL

datatype Field_ValueFormat = Field_RAW | Field_FORMAT int32

datatype error =
    FieldIsNil
  | UnsupportedKind string
  | TypeMismatch Field_ValueType Field_ValueType
  | DecoderPanic
  | PrepOutDataPanic
  | PluginError string

record Field =
  Name :: "string option"
  ValueType :: "Field_ValueType option"
  ValueFormat :: "Field_ValueFormat option"
  ValueString :: "string slice"
  ValueBytes :: "byte list slice"
  ValueInteger :: "int64 slice"
  ValueDouble :: "float64 slice"
  ValueBool :: "bool slice"

record Message =
  Uuid :: "byte list"
  Timestamp :: "int64 option"
  Type :: "string option"
  Logger :: "string option"
  Severity :: "int32 option"
  Payload :: "string option"
  EnvVersion :: "string option"
  Pid :: "int32 option"
  Hostname :: "string option"
  Fields :: "Field option slice"

definition UUID_SIZE :: nat where
  "UUID_SIZE = 16"

text \<open>
  The setters.  The receiver is a pointer: \<open>None\<close> is the nil receiver, and the function
  returns the receiver as the call leaves it.
\<close>

definition SetUuid :: "Message option \<Rightarrow> byte list \<Rightarrow> Message option" where
  "SetUuid m v =
     (case m of
        None \<Rightarrow> None
      | Some msg \<Rightarrow>
          (let u = (if length (Uuid msg) \<noteq> UUID_SIZE then replicate UUID_SIZE 0 else Uuid msg)
           in Some (msg\<lparr>Uuid := copy_bytes u v\<rparr>)))"

definition SetTimestamp :: "Message option \<Rightarrow> int64 \<Rightarrow> Message option" where
  "SetTimestamp m v = (case m of None \<Rightarrow> None | Some msg \<Rightarrow> Some (msg\<lparr>Timestamp := Some v\<rparr>))"

definition SetType :: "Message option \<Rightarrow> string \<Rightarrow> Message option" where
  "SetType m v = (case m of None \<Rightarrow> None | Some msg \<Rightarrow> Some (msg\<lparr>Type := Some v\<rparr>))"

definition SetLogger :: "Message option \<Rightarrow> string \<Rightarrow> Message option" where
  "SetLogger m v = (case m of None \<Rightarrow> None | Some msg \<Rightarrow> Some (msg\<lparr>Logger := Some v\<rparr>))"

definition SetSeverity :: "Message option \<Rightarrow> int32 \<Rightarrow> Message option" where
  "SetSeverity m v = (case m of None \<Rightarrow> None | Some msg \<Rightarrow> Some (msg\<lparr>Severity := Some v\<rparr>))"

definition SetPayload :: "Message option \<Rightarrow> string \<Rightarrow> Message option" where
  "SetPayload m v = (case m of None \<Rightarrow> None | Some msg \<Rightarrow> Some (msg\<lparr>Payload := Some v\<rparr>))"

definition SetEnvVersion :: "Message option \<Rightarrow> string \<Rightarrow> Message option" where
  "SetEnvVersion m v = (case m of None \<Rightarrow> None | Some msg \<Rightarrow> Some (msg\<lparr>EnvVersion := Some v\<rparr>))"

definition SetPid :: "Message option \<Rightarrow> int32 \<Rightarrow> Message option" where
  "SetPid m v = (case m of None \<Rightarrow> None | Some msg \<Rightarrow> Some (msg\<lparr>Pid := Some v\<rparr>))"

definition SetHostname :: "Message option \<Rightarrow> string \<Rightarrow> Message option" where
  "SetHostname m v = (case m of None \<Rightarrow> None | Some msg \<Rightarrow> Some (msg\<lparr>Hostname := Some v\<rparr>))"

text \<open>
  \<open>getValueType\<close> returns the pair \<open>(t, err)\<close>; \<open>t\<close> keeps its zero value \<open>Field_STRING\<close>
  wherever the switch does not assign it.  The array-or-slice case has no \<open>else\<close>: a
  sequence of anything but bytes leaves with \<open>(Field_STRING, nil)\<close>.  In the default case
  the error message is built from \<open>v.Type()\<close>, which panics on the zero \<open>reflect.Value\<close>
  of a nil interface: the result \<open>None\<close>.
\<close>

fun getValueType :: "go_value \<Rightarrow> (Field_ValueType \<times> error option) option" where
  "getValueType (Str s) = Some (Field_STRING, None)"
| "getValueType (ByteSeq k bs) = Some (Field_BYTES, None)"
| "getValueType (OtherSeq k t) = Some (Field_STRING, None)"
| "getValueType (IntV k i) = Some (Field_INTEGER, None)"
| "getValueType (FloatV k d) = Some (Field_DOUBLE, None)"
| "getValueType (BoolV b) = Some (Field_BOOL, None)"
| "getValueType Nil = None"
| "getValueType (Other t) = Some (Field_STRING, Some (UnsupportedKind t))"

text \<open>\<open>Message.AddField\<close>: the same growth code, then \<open>m.Fields[l] = f\<close>.\<close>

definition AddField :: "Message option \<Rightarrow> Field option \<Rightarrow> Message option" where
  "AddField m f =
     (case m of
        None \<Rightarrow> None
      | Some msg \<Rightarrow>
          (let l = len (Fields msg)
           in Some (msg\<lparr>Fields := store l f (grow None (Fields msg))\<rparr>)))"

definition NewFieldInit :: "string \<Rightarrow> Field_ValueType \<Rightarrow> Field_ValueFormat \<Rightarrow> Field" where
  "NewFieldInit name valueType valueFormat =
     \<lparr>Name = Some name, ValueType = Some valueType, ValueFormat = Some valueFormat,
      ValueString = nil_slice, ValueBytes = nil_slice, ValueInteger = nil_slice,
      ValueDouble = nil_slice, ValueBool = nil_slice\<rparr>"

text \<open>
  \<open>Field.AddValue\<close>.  The result is the returned error (\<open>None\<close> is nil) and the receiver
  as the call leaves it.  Dereferencing a nil \<open>f.ValueType\<close> panics.  In each case of the
  switch the sequence is grown first and the accessor of \<open>reflect.Value\<close> is called
  afterwards, so an accessor that panics leaves the grown sequence behind.
\<close>

definition AddValue :: "Field option \<Rightarrow> go_value \<Rightarrow> (error option, Field option) outcome" where
  "AddValue f v =
     (case f of
        None \<Rightarrow> Returns (Some FieldIsNil) None
      | Some fld \<Rightarrow>
          (case getValueType v of
             None \<Rightarrow> Panics f
           | Some (t, Some err) \<Rightarrow> Returns (Some err) f
           | Some (t, None) \<Rightarrow>
               (case ValueType fld of
                  None \<Rightarrow> Panics f
                | Some ft \<Rightarrow>
                    if t \<noteq> ft then Returns (Some (TypeMismatch ft t)) f
                    else
                      (case ft of
                         Field_STRING \<Rightarrow>
                           (let l = len (ValueString fld);
                                g = fld\<lparr>ValueString := grow [] (ValueString fld)\<rparr>
                            in Returns None
                                 (Some (g\<lparr>ValueString := store l (reflect_String v) (ValueString g)\<rparr>)))
                       | Field_BYTES \<Rightarrow>
                           (let l = len (ValueBytes fld);
                                g = fld\<lparr>ValueBytes := grow [] (ValueBytes fld)\<rparr>
                            in case reflect_Bytes v of
                                 None \<Rightarrow> Panics (Some g)
                               | Some b \<Rightarrow>
                                   Returns None
                                     (Some (g\<lparr>ValueBytes :=
                                        store l (copy_bytes (replicate (length b) 0) b) (ValueBytes g)\<rparr>)))
                       | Field_INTEGER \<Rightarrow>
                           (let l = len (ValueInteger fld);
                                g = fld\<lparr>ValueInteger := grow 0 (ValueInteger fld)\<rparr>
                            in case reflect_Int v of
                                 None \<Rightarrow> Panics (Some g)
                               | Some i \<Rightarrow>
                                   Returns None (Some (g\<lparr>ValueInteger := store l i (ValueInteger g)\<rparr>)))
                       | Field_DOUBLE \<Rightarrow>
                           (let l = len (ValueDouble fld);
                                g = fld\<lparr>ValueDouble := grow 0 (ValueDouble fld)\<rparr>
                            in case reflect_Float v of
                                 None \<Rightarrow> Panics (Some g)
                               | Some d \<Rightarrow>
                                   Returns None (Some (g\<lparr>ValueDouble := store l d (ValueDouble g)\<rparr>)))
                       | Field_BOOL \<Rightarrow>
                           (let l = len (ValueBool fld);
                                g = fld\<lparr>ValueBool := grow False (ValueBool fld)\<rparr>
                            in case reflect_Bool v of
                                 None \<Rightarrow> Panics (Some g)
                               | Some b \<Rightarrow>
                                   Returns None (Some (g\<lparr>ValueBool := store l b (ValueBool g)\<rparr>)))))))"

text \<open>
  \<open>NewField\<close> drops the error of \<open>AddValue\<close>; when \<open>getValueType\<close> fails it returns the
  nil field together with the error.
\<close>

definition NewField ::
  "string \<Rightarrow> go_value \<Rightarrow> Field_ValueFormat \<Rightarrow> (Field option \<times> error option) option" where
  "NewField name v valueFormat =
     (case getValueType v of
        None \<Rightarrow> None
      | Some (t, Some err) \<Rightarrow> Some (None, Some err)
      | Some (t, None) \<Rightarrow>
          (case AddValue (Some (NewFieldInit name t valueFormat)) v of
             Panics f \<Rightarrow> None
           | Returns e f \<Rightarrow> Some (f, None)))"

section \<open>The dispatcher (pipeline.go)\<close>

text \<open>
  Plugin instances and channels are reference values in Go; a Pack holds maps from names
  to them.  They are modelled as handles, and what a plugin does when it is called is
  given separately (record \<open>plugins\<close> below), over a state \<open>'w\<close> that stands for
  everything the plugins own.
\<close>

type_synonym chan_id = nat
type_synonym plugin_ref = nat

text \<open>
  Modelled from the spec: the declarations of \<open>PipelineConfig\<close>, \<open>FilterChain\<close> and
  \<open>PluginWrapper\<close>, which are in config.go and not among the sources.  A filter chain is
  an ordered list of filter names and the output names to deliver to; a wrapper has a
  name and, for a plugin with a shared global, a pointer to the global (\<open>None\<close> is nil;
  its two creator functions play no part here); the configuration has the default decoder
  and filter chain, the table of chains, the lookup of a chain for a message, the pool
  size, and one map of wrappers for each of inputs, decoders, filters and outputs.  The
  records hold these attributes under the names that pipeline.go reads them by.  The
  four wrapper maps are lists of entries, in the order in which \<open>range\<close> yields them.
\<close>

record FilterChain =
  fc_Filters :: "string list"
  fc_Outputs :: "string list"

record PluginWrapper =
  wrapper_name :: string
  global :: "plugin_ref option"

record PipelineConfig =
  DefaultDecoder :: string
  DefaultFilterChain :: string
  FilterChains :: "string \<rightharpoonup> FilterChain"
  LocateChain :: "Message \<Rightarrow> string \<times> bool"
  cfg_Inputs :: "(string \<times> PluginWrapper) list"
  cfg_Decoders :: "(string \<times> PluginWrapper) list"
  cfg_Filters :: "(string \<times> PluginWrapper) list"
  cfg_Outputs :: "(string \<times> PluginWrapper) list"
  PoolSize :: int

text \<open>
  \<open>OutputNames\<close> is the only map of a Pack that the dispatcher ranges over and updates:
  it is the list of the map's entries in iteration order (keys distinct), updated with
  \<open>AList.update\<close> and \<open>AList.delete\<close>.  The other three maps are only looked up.
\<close>

record PipelinePack =
  MsgBytes :: "byte slice"
  Message :: Message
  Config :: PipelineConfig
  Decoder :: string
  Decoders :: "string \<rightharpoonup> plugin_ref"
  Filters :: "string \<rightharpoonup> plugin_ref"
  OutputChans :: "string \<rightharpoonup> chan_id"
  Decoded :: bool
  Blocked :: bool
  FilterChain :: string
  ChainCount :: int
  OutputNames :: "(string \<times> bool) list"

text \<open>
  What the plugins do.  \<open>Decode\<close> and \<open>FilterMsg\<close> receive the Pack by pointer and may
  change it; \<open>Event\<close> is the method of a plugin global; \<open>Post\<close> is \<open>notify.Post\<close> of the
  event bus.
\<close>

record 'w plugins =
  Decode :: "plugin_ref \<Rightarrow> PipelinePack \<times> 'w \<Rightarrow> (error option, PipelinePack \<times> 'w) outcome"
  FilterMsg :: "plugin_ref \<Rightarrow> PipelinePack \<times> 'w \<Rightarrow> (unit, PipelinePack \<times> 'w) outcome"
  Event :: "plugin_ref \<Rightarrow> string \<Rightarrow> 'w \<Rightarrow> (unit, 'w) outcome"
  Post :: "string \<Rightarrow> 'w \<Rightarrow> error option \<times> 'w"

text \<open>
  What the dispatcher does to the outside, in order: the lines it logs, the calls it
  makes into plugins, and the sends on output channels.  A send is recorded where the
  statement \<open>outChan <- pack\<close> is executed; how long it waits for room in the channel is
  a matter of scheduling and does not show.
\<close>

datatype log_line =
    DecoderMissing string
  | DecodeError string error
  | FilterChainMissing string
  | FilterPanic string
  | OutputMissing string
  | EventPostError error
  | EventPanic string

datatype event =
    Log log_line
  | DecodeCall string
  | FilterCall string
  | Send string chan_id
  | Posted string
  | EventCall plugin_ref string

record 'w pstate =
  pack :: PipelinePack
  world :: 'w
  trace :: "event list"

definition emit :: "event list \<Rightarrow> 'w pstate \<Rightarrow> 'w pstate" where
  "emit es st = st\<lparr>trace := trace st @ es\<rparr>"

text \<open>\<open>PipelinePack.Zero\<close>.  The loop deletes every key that \<open>range\<close> yields.\<close>

definition Zero :: "PipelinePack \<Rightarrow> PipelinePack" where
  "Zero self =
     self\<lparr>MsgBytes := full_slice (MsgBytes self),
          Decoder := DefaultDecoder (Config self),
          Decoded := False,
          Blocked := False,
          FilterChain := DefaultFilterChain (Config self),
          OutputNames :=
            fold (\<lambda>outputName m. AList.delete outputName m)
              (map fst (OutputNames self)) (OutputNames self)\<rparr>"

text \<open>
  \<open>safe_filter\<close>: the deferred \<open>recover\<close> logs and sets \<open>Blocked\<close>.  A name that is not
  in \<open>Filters\<close> yields the nil interface, and the call on it panics before any filter
  code runs.
\<close>

definition safe_filter :: "'w plugins \<Rightarrow> string \<Rightarrow> plugin_ref option \<Rightarrow> 'w pstate \<Rightarrow> 'w pstate" where
  "safe_filter P filterName filter' st =
     (case filter' of
        None \<Rightarrow> emit [Log (FilterPanic filterName)] (st\<lparr>pack := (pack st)\<lparr>Blocked := True\<rparr>\<rparr>)
      | Some r \<Rightarrow>
          (case FilterMsg P r (pack st, world st) of
             Returns u (p, w) \<Rightarrow> emit [FilterCall filterName] (st\<lparr>pack := p, world := w\<rparr>)
           | Panics (p, w) \<Rightarrow>
               emit [FilterCall filterName, Log (FilterPanic filterName)]
                 (st\<lparr>pack := p\<lparr>Blocked := True\<rparr>, world := w\<rparr>)))"

text \<open>The second loop of \<open>filterProcessor\<close>: it returns as soon as the Pack is blocked.\<close>

fun run_filters :: "'w plugins \<Rightarrow> string list \<Rightarrow> 'w pstate \<Rightarrow> 'w pstate" where
  "run_filters P [] st = st"
| "run_filters P (filterName # rest) st =
     (let st' = safe_filter P filterName (Filters (pack st) filterName) st
      in if Blocked (pack st') then st' else run_filters P rest st')"

definition filterProcessor :: "'w plugins \<Rightarrow> 'w pstate \<Rightarrow> 'w pstate" where
  "filterProcessor P st =
     (let p0 = (pack st)\<lparr>OutputNames := []\<rparr>;
          config = Config p0;
          (located, ok) = LocateChain config (Message p0);
          p1 = (if ok then p0\<lparr>FilterChain := located\<rparr> else p0);
          filterChainName = (if ok then located else FilterChain p0)
      in case FilterChains config filterChainName of
           None \<Rightarrow> emit [Log (FilterChainMissing filterChainName)] (st\<lparr>pack := p1\<rparr>)
         | Some filterChain \<Rightarrow>
             run_filters P (fc_Filters filterChain)
               (st\<lparr>pack := p1\<lparr>OutputNames :=
                  fold (\<lambda>outputName m. AList.update outputName True m)
                    (fc_Outputs filterChain) (OutputNames p1)\<rparr>\<rparr>))"

text \<open>
  \<open>safe_decode\<close> turns a panic of \<open>Decode\<close> into an error.  It is defined in pipeline.go;
  \<open>pipeline\<close> does not call it.
\<close>

definition safe_decode ::
  "'w plugins \<Rightarrow> plugin_ref \<Rightarrow> PipelinePack \<times> 'w \<Rightarrow> error option \<times> PipelinePack \<times> 'w" where
  "safe_decode P decoder s =
     (case Decode P decoder s of
        Returns err s' \<Rightarrow> (err, s')
      | Panics s' \<Rightarrow> (Some DecoderPanic, s'))"

text \<open>
  The fan-out loop of \<open>pipeline\<close> over the entries of \<open>OutputNames\<close>; \<open>i\<close> counts the sends.
\<close>

fun fan_out ::
  "(string \<rightharpoonup> chan_id) \<Rightarrow> (string \<times> bool) list \<Rightarrow> nat \<times> event list \<Rightarrow> nat \<times> event list" where
  "fan_out chans [] acc = acc"
| "fan_out chans ((outputName, use) # rest) (i, es) =
     (if \<not> use then fan_out chans rest (i, es)
      else case chans outputName of
             None \<Rightarrow> fan_out chans rest (i, es @ [Log (OutputMissing outputName)])
           | Some outChan \<Rightarrow> fan_out chans rest (i + 1, es @ [Send outputName outChan]))"

text \<open>The part of \<open>pipeline\<close> after the decode stage: filters, then fan-out.\<close>

definition pipeline_filters_and_outputs ::
  "'w plugins \<Rightarrow> 'w pstate \<Rightarrow> (bool, 'w pstate) outcome" where
  "pipeline_filters_and_outputs P st =
     (let st1 = filterProcessor P st
      in if Blocked (pack st1) then Returns True st1
         else
           (let (i, es) = fan_out (OutputChans (pack st1)) (OutputNames (pack st1)) (0, [])
            in Returns (i = 0) (emit es st1)))"

text \<open>
  \<open>pipeline\<close>: the result is \<open>recycle\<close>.  \<open>decoder.Decode(pack)\<close> is called directly, so a
  panic of the decoder leaves \<open>pipeline\<close> as a panic.
\<close>

definition pipeline :: "'w plugins \<Rightarrow> 'w pstate \<Rightarrow> (bool, 'w pstate) outcome" where
  "pipeline P st =
     (if \<not> Decoded (pack st) then
        (let decoderName = Decoder (pack st)
         in case Decoders (pack st) decoderName of
              None \<Rightarrow> Returns True (emit [Log (DecoderMissing decoderName)] st)
            | Some decoder \<Rightarrow>
                (case Decode P decoder (pack st, world st) of
                   Panics (p, w) \<Rightarrow> Panics (emit [DecodeCall decoderName] (st\<lparr>pack := p, world := w\<rparr>))
                 | Returns (Some err) (p, w) \<Rightarrow>
                     Returns True
                       (emit [DecodeCall decoderName, Log (DecodeError decoderName err)]
                          (st\<lparr>pack := p, world := w\<rparr>))
                 | Returns None (p, w) \<Rightarrow>
                     pipeline_filters_and_outputs P
                       (emit [DecodeCall decoderName] (st\<lparr>pack := p\<lparr>Decoded := True\<rparr>, world := w\<rparr>))))
      else pipeline_filters_and_outputs P st)"

text \<open>
  The \<open>dataChan\<close> case of the loop in \<open>Run\<close>: a Pack to recycle is zeroed and sent on
  \<open>recycleChan\<close>.  There is no \<open>recover\<close> in \<open>Run\<close>: a panic of \<open>pipeline\<close> ends the loop.
\<close>

definition Run_dataChan ::
  "'w plugins \<Rightarrow> 'w pstate \<Rightarrow> PipelinePack list \<Rightarrow> (unit, 'w pstate \<times> PipelinePack list) outcome" where
  "Run_dataChan P st recycleChan =
     (case pipeline P st of
        Panics st' \<Rightarrow> Panics (st', recycleChan)
      | Returns recycle st' \<Rightarrow>
          if recycle
          then (let z = Zero (pack st') in Returns () (st'\<lparr>pack := z\<rparr>, recycleChan @ [z]))
          else Returns () (st', recycleChan))"

text \<open>
  \<open>safe_plugin_global_event\<close> and \<open>BroadcastEvent\<close>.  The state is the plugins' state
  and the trace.  \<open>BroadcastEvent\<close> visits the wrappers of the filters, then those of
  the outputs.
\<close>

definition safe_plugin_global_event ::
  "'w plugins \<Rightarrow> PluginWrapper \<Rightarrow> string \<Rightarrow> 'w \<times> event list \<Rightarrow> 'w \<times> event list" where
  "safe_plugin_global_event P wrapper eventType s =
     (case global wrapper of
        None \<Rightarrow> (fst s, snd s @ [Log (EventPanic eventType)])
      | Some g \<Rightarrow>
          (case Event P g eventType (fst s) of
             Returns u w \<Rightarrow> (w, snd s @ [EventCall g eventType])
           | Panics w \<Rightarrow> (w, snd s @ [EventCall g eventType, Log (EventPanic eventType)])))"

definition notify_wrappers ::
  "'w plugins \<Rightarrow> string \<Rightarrow> (string \<times> PluginWrapper) list \<Rightarrow> 'w \<times> event list \<Rightarrow> 'w \<times> event list" where
  "notify_wrappers P eventType wrappers s =
     fold (\<lambda>(name, wrapper) s'.
             if global wrapper \<noteq> None then safe_plugin_global_event P wrapper eventType s' else s')
       wrappers s"

definition BroadcastEvent ::
  "'w plugins \<Rightarrow> PipelineConfig \<Rightarrow> string \<Rightarrow> 'w \<times> event list \<Rightarrow> 'w \<times> event list" where
  "BroadcastEvent P config eventType s =
     (let (err, w) = Post P eventType (fst s);
          es = snd s @ [Posted eventType]
                 @ (case err of None \<Rightarrow> [] | Some e \<Rightarrow> [Log (EventPostError e)])
      in notify_wrappers P eventType (cfg_Outputs config)
           (notify_wrappers P eventType (cfg_Filters config) (w, es)))"

section \<open>The Runner adapter (runner.go)\<close>

text \<open>
  An \<open>outData\<close> scratch object is a reference value: it is a handle here, and the content
  behind each handle is in the store \<open>contents\<close> of the Runner state, so that a change of
  the content shows through every copy of the reference.  \<open>ZeroOutData\<close> and \<open>PrepOutData\<close>
  of the plugin's \<open>DataRecycler\<close> work on the content, and may panic half-way, leaving
  the content as it is then.  The timeout pointer of \<open>PrepOutData\<close> is \<open>None\<close> when nil.
\<close>

type_synonym scratch = nat

record 'd DataRecycler =
  ZeroOutData :: "'d \<Rightarrow> (unit, 'd) outcome"
  PrepOutData :: "PipelinePack \<Rightarrow> 'd \<Rightarrow> int64 option \<Rightarrow> (error option, 'd) outcome"

datatype runner_log =
    PrepOutDataFailed error
  | NotReplacingRecycleChannel

text \<open>
  The Runner with the two channels of its \<open>RunnerGlobal\<close>.  A channel is the queue of the
  references sent and not yet received.  Receiving from an empty channel blocks: the
  three entry points below then have no result (\<open>None\<close>).  A send appends; the capacity
  \<open>2 * PoolSize\<close> of the channels only delays a sender and is left out.
\<close>

record 'd Runner =
  outData :: "scratch option"
  recycleChan :: "scratch list"
  dataChan :: "scratch list"
  contents :: "scratch \<Rightarrow> 'd"
  runner_log :: "runner_log list"

text \<open>
  \<open>RecycleOutData\<close> works on the scratch it is given and does not touch the field
  \<open>outData\<close>.  When \<open>ZeroOutData\<close> panics, the deferred \<open>recover\<close> logs and the send on
  \<open>recycleChan\<close> is never reached.
\<close>

definition RecycleOutData :: "'d DataRecycler \<Rightarrow> scratch \<Rightarrow> 'd Runner \<Rightarrow> 'd Runner" where
  "RecycleOutData R od self =
     (case ZeroOutData R (contents self od) of
        Returns u d \<Rightarrow>
          self\<lparr>contents := (contents self)(od := d), recycleChan := recycleChan self @ [od]\<rparr>
      | Panics d \<Rightarrow>
          self\<lparr>contents := (contents self)(od := d),
               runner_log := runner_log self @ [NotReplacingRecycleChannel]\<rparr>)"

text \<open>
  \<open>safe_prepoutdata\<close> returns the error of \<open>PrepOutData\<close>, or the error that the deferred
  \<open>recover\<close> makes of its panic; the scratch keeps what \<open>PrepOutData\<close> wrote.
\<close>

definition safe_prepoutdata ::
  "'d DataRecycler \<Rightarrow> PipelinePack \<Rightarrow> scratch \<Rightarrow> int64 option \<Rightarrow> 'd Runner
     \<Rightarrow> error option \<times> 'd Runner" where
  "safe_prepoutdata R pk od timeout self =
     (case PrepOutData R pk (contents self od) timeout of
        Returns err d \<Rightarrow> (err, self\<lparr>contents := (contents self)(od := d)\<rparr>)
      | Panics d \<Rightarrow> (Some PrepOutDataPanic, self\<lparr>contents := (contents self)(od := d)\<rparr>))"

definition Runner_Deliver :: "'d DataRecycler \<Rightarrow> PipelinePack \<Rightarrow> 'd Runner \<Rightarrow> 'd Runner option" where
  "Runner_Deliver R pk self =
     (case recycleChan self of
        [] \<Rightarrow> None
      | od # rest \<Rightarrow>
          (let (err, self1) =
                 safe_prepoutdata R pk od None (self\<lparr>outData := Some od, recycleChan := rest\<rparr>)
           in case err of
                Some e \<Rightarrow>
                  Some (RecycleOutData R od
                          (self1\<lparr>runner_log := runner_log self1 @ [PrepOutDataFailed e]\<rparr>))
              | None \<Rightarrow> Some (self1\<lparr>dataChan := dataChan self1 @ [od]\<rparr>)))"

definition Runner_FilterMsg :: "'d DataRecycler \<Rightarrow> PipelinePack \<Rightarrow> 'd Runner \<Rightarrow> 'd Runner option" where
  "Runner_FilterMsg R pk self =
     (case recycleChan self of
        [] \<Rightarrow> None
      | od # rest \<Rightarrow>
          (let (err, self1) =
                 safe_prepoutdata R pk od None (self\<lparr>outData := Some od, recycleChan := rest\<rparr>)
           in case err of
                Some e \<Rightarrow>
                  Some (RecycleOutData R od
                          (self1\<lparr>runner_log := runner_log self1 @ [PrepOutDataFailed e]\<rparr>))
              | None \<Rightarrow> Some (self1\<lparr>dataChan := dataChan self1 @ [od]\<rparr>)))"

definition Runner_Read ::
  "'d DataRecycler \<Rightarrow> PipelinePack \<Rightarrow> int64 option \<Rightarrow> 'd Runner \<Rightarrow> (error option \<times> 'd Runner) option" where
  "Runner_Read R pk timeout self =
     (case recycleChan self of
        [] \<Rightarrow> None
      | od # rest \<Rightarrow>
          (let (err, self1) =
                 safe_prepoutdata R pk od timeout (self\<lparr>outData := Some od, recycleChan := rest\<rparr>)
           in case err of
                Some e \<Rightarrow> Some (err, RecycleOutData R od self1)
              | None \<Rightarrow> Some (None, self1\<lparr>dataChan := dataChan self1 @ [od]\<rparr>)))"

section \<open>The JSON codec and message equality (message.go)\<close>

text \<open>
  What \<open>MarshalJSON\<close> takes from outside message.go: the formatting of a timestamp by
  package \<open>time\<close>, \<open>json.Marshal\<close> on a string and on a double, and the defaults that the
  generated getters of message.pb.go return for an absent attribute.
\<close>

record codec =
  format_time :: "int64 \<Rightarrow> string"
  json_string :: "string \<Rightarrow> string"
  json_float :: "float64 \<Rightarrow> string"
  default_string :: string
  default_Severity :: int32
  default_Pid :: int32
  default_ValueType :: Field_ValueType

text \<open>
  Modelled from the spec: a generated getter of message.pb.go.  An attribute may be
  absent, which is distinct from zero: the getter yields the value behind the pointer, or
  the default (a parameter, see \<open>codec\<close>) when the pointer or the receiver is nil.
\<close>

definition getter :: "'a \<Rightarrow> 'a option \<Rightarrow> 'a" where
  "getter d p = (case p of None \<Rightarrow> d | Some v \<Rightarrow> v)"

definition GetValueType :: "codec \<Rightarrow> Field option \<Rightarrow> Field_ValueType" where
  "GetValueType C f =
     (case f of None \<Rightarrow> default_ValueType C | Some fld \<Rightarrow> getter (default_ValueType C) (ValueType fld))"

text \<open>\<open>json.Marshal(v.Name)\<close> on the pointer \<open>v.Name\<close>.\<close>

definition json_name :: "codec \<Rightarrow> string option \<Rightarrow> string" where
  "json_name C n = (case n of None \<Rightarrow> ''null'' | Some s \<Rightarrow> json_string C s)"

text \<open>
  The loop of \<open>serialize_map\<close>; \<open>x\<close> tells whether an entry has been written.  Only the
  first value of a string or double field is written; any other field is written as a
  fixed placeholder.  \<open>None\<close> is a panic: a nil field, or a field with no value, where
  \<open>v.ValueString[0]\<close> or \<open>v.ValueDouble[0]\<close> is read.
\<close>

fun serialize_entries :: "codec \<Rightarrow> Field option list \<Rightarrow> bool \<Rightarrow> string \<Rightarrow> string option" where
  "serialize_entries C [] x results = Some results"
| "serialize_entries C (v # rest) x results =
     (let results1 = (if x then results @ '', '' else results)
      in case GetValueType C v of
           Field_STRING \<Rightarrow>
             (case v of
                None \<Rightarrow> None
              | Some fld \<Rightarrow>
                  (case elems (ValueString fld) of
                     [] \<Rightarrow> None
                   | s # ss \<Rightarrow>
                       serialize_entries C rest True
                         (results1 @ json_name C (Name fld) @ '': '' @ json_string C s)))
         | Field_DOUBLE \<Rightarrow>
             (case v of
                None \<Rightarrow> None
              | Some fld \<Rightarrow>
                  (case elems (ValueDouble fld) of
                     [] \<Rightarrow> None
                   | d # ds \<Rightarrow>
                       serialize_entries C rest True
                         (results1 @ json_name C (Name fld) @ '': '' @ json_float C d)))
         | Field_BYTES \<Rightarrow> serialize_entries C rest True (results1 @ ''<something_else_here>'')
         | Field_INTEGER \<Rightarrow> serialize_entries C rest True (results1 @ ''<something_else_here>'')
         | Field_BOOL \<Rightarrow> serialize_entries C rest True (results1 @ ''<something_else_here>''))"

definition serialize_map :: "codec \<Rightarrow> Field option list \<Rightarrow> string option" where
  "serialize_map C msg_fields =
     (case serialize_entries C msg_fields False ''{'' of
        None \<Rightarrow> None
      | Some results \<Rightarrow> Some (results @ ''}''))"

definition dq :: string where
  "dq = [CHR 0x22]"

text \<open>
  \<open>MarshalJSON\<close>.  \<open>*self.Timestamp\<close> panics on a message without timestamp.  The strings
  are pasted between double quotes as they are (\<open>%s\<close>), the numbers with \<open>%d\<close>.
\<close>

definition MarshalJSON :: "codec \<Rightarrow> Message \<Rightarrow> string option" where
  "MarshalJSON C self =
     (case Timestamp self of
        None \<Rightarrow> None
      | Some ts \<Rightarrow>
          (case serialize_map C (elems (Fields self)) of
             None \<Rightarrow> None
           | Some fields_json \<Rightarrow>
               Some (''{'' @ dq @ ''timestamp'' @ dq @ '': '' @ dq @ format_time C ts @ dq
                  @ '', '' @ dq @ ''type'' @ dq @ '': '' @ dq @ getter (default_string C) (Type self) @ dq
                  @ '', '' @ dq @ ''logger'' @ dq @ '': '' @ dq @ getter (default_string C) (Logger self) @ dq
                  @ '', '' @ dq @ ''severity'' @ dq @ '': ''
                      @ show_int (sint (getter (default_Severity C) (Severity self)))
                  @ '', '' @ dq @ ''payload'' @ dq @ '': '' @ dq @ getter (default_string C) (Payload self) @ dq
                  @ '', '' @ dq @ ''env_version'' @ dq @ '': '' @ dq
                      @ getter (default_string C) (EnvVersion self) @ dq
                  @ '', '' @ dq @ ''metlog_pid'' @ dq @ '': ''
                      @ show_int (sint (getter (default_Pid C) (Pid self)))
                  @ '', '' @ dq @ ''metlog_hostname'' @ dq @ '': '' @ dq
                      @ getter (default_string C) (Hostname self) @ dq
                  @ '', '' @ dq @ ''fields'' @ dq @ '': '' @ fields_json @ ''}'')))"

text \<open>
  \<open>Message.Equals\<close>: the identifiers as byte strings, the eight scalar pointers (both
  nil, or both set to equal values), and \<open>reflect.DeepEqual\<close> on \<open>Fields\<close>.  \<open>DeepEqual\<close>
  follows the pointers and compares the visible elements of every slice; it also tells a
  nil slice from an empty one and compares doubles with \<open>==\<close>, which the equality on
  \<open>elems\<close> below does not render (a nil and an empty slice, or two equal NaN bit
  patterns, are equal here).
\<close>

definition Field_DeepEqual :: "Field \<Rightarrow> Field \<Rightarrow> bool" where
  "Field_DeepEqual f g =
     (Name f = Name g \<and> ValueType f = ValueType g \<and> ValueFormat f = ValueFormat g
      \<and> elems (ValueString f) = elems (ValueString g)
      \<and> elems (ValueBytes f) = elems (ValueBytes g)
      \<and> elems (ValueInteger f) = elems (ValueInteger g)
      \<and> elems (ValueDouble f) = elems (ValueDouble g)
      \<and> elems (ValueBool f) = elems (ValueBool g))"

definition Equals :: "Message \<Rightarrow> Message \<Rightarrow> bool" where
  "Equals m other =
     (Uuid m = Uuid other
      \<and> Timestamp m = Timestamp other \<and> Type m = Type other \<and> Logger m = Logger other
      \<and> Severity m = Severity other \<and> Payload m = Payload other
      \<and> EnvVersion m = EnvVersion other \<and> Pid m = Pid other \<and> Hostname m = Hostname other
      \<and> list_all2 (rel_option Field_DeepEqual) (elems (Fields m)) (elems (Fields other)))"

section \<open>Observations on traces and intermediate states\<close>

text \<open>The sends, the filter calls and the event calls of a trace, in order.\<close>

definition sends_of :: "event list \<Rightarrow> (string \<times> chan_id) list" where
  "sends_of es = concat (map (\<lambda>e. case e of Send n c \<Rightarrow> [(n, c)] | _ \<Rightarrow> []) es)"

definition filter_calls :: "event list \<Rightarrow> string list" where
  "filter_calls es = concat (map (\<lambda>e. case e of FilterCall n \<Rightarrow> [n] | _ \<Rightarrow> []) es)"

definition event_calls :: "event list \<Rightarrow> (plugin_ref \<times> string) list" where
  "event_calls es = concat (map (\<lambda>e. case e of EventCall g t \<Rightarrow> [(g, t)] | _ \<Rightarrow> []) es)"

text \<open>What the fan-out loop does for one entry of \<open>OutputNames\<close>, and for a whole Pack.\<close>

definition entry_events :: "(string \<rightharpoonup> chan_id) \<Rightarrow> string \<times> bool \<Rightarrow> event list" where
  "entry_events chans e =
     (if \<not> snd e then []
      else case chans (fst e) of
             None \<Rightarrow> [Log (OutputMissing (fst e))]
           | Some c \<Rightarrow> [Send (fst e) c])"

definition fan_out_events :: "PipelinePack \<Rightarrow> event list" where
  "fan_out_events p = snd (fan_out (OutputChans p) (OutputNames p) (0, []))"

text \<open>
  The chain that \<open>filterProcessor\<close> selects for a Pack, and the state in which it enters
  its loop over the filters of the chain \<open>fc\<close>.
\<close>

definition chain_name :: "PipelinePack \<Rightarrow> string" where
  "chain_name p =
     (let (located, ok) = LocateChain (Config p) (Message p)
      in if ok then located else FilterChain p)"

definition seed_outputs :: "FilterChain \<Rightarrow> 'w pstate \<Rightarrow> 'w pstate" where
  "seed_outputs fc st =
     st\<lparr>pack := (pack st)\<lparr>FilterChain := chain_name (pack st),
                           OutputNames :=
                             fold (\<lambda>outputName m. AList.update outputName True m) (fc_Outputs fc) []\<rparr>\<rparr>"

text \<open>The states just before and just after the filter that follows the filters \<open>pre\<close>.\<close>

definition before_filter :: "'w plugins \<Rightarrow> FilterChain \<Rightarrow> string list \<Rightarrow> 'w pstate \<Rightarrow> 'w pstate" where
  "before_filter P fc pre st = run_filters P pre (seed_outputs fc st)"

definition after_filter ::
  "'w plugins \<Rightarrow> FilterChain \<Rightarrow> string list \<Rightarrow> string \<Rightarrow> 'w pstate \<Rightarrow> 'w pstate" where
  "after_filter P fc pre f st =
     safe_filter P f (Filters (pack (before_filter P fc pre st)) f) (before_filter P fc pre st)"

text \<open>The globals that a list of wrappers holds, in order.\<close>

definition globals_of :: "(string \<times> PluginWrapper) list \<Rightarrow> plugin_ref list" where
  "globals_of wrappers =
     concat (map (\<lambda>(name, wrapper). case global wrapper of None \<Rightarrow> [] | Some g \<Rightarrow> [g]) wrappers)"

section \<open>A small configuration to run the definitions on\<close>

text \<open>
  One chain with three filters and three output names, of which \<open>ghost\<close> has no channel;
  an input plugin, two filter plugins and an output plugin with a global.  The plugins
  count in the state how often their code has run; each succeeds, fails or crashes as the
  table \<open>b\<close> tells.  A failing filter blocks the Pack.
\<close>

datatype behaviour = Succeeds | Fails | Crashes

definition example_plugins :: "(plugin_ref \<Rightarrow> behaviour) \<Rightarrow> nat plugins" where
  "example_plugins b =
     \<lparr>Decode = (\<lambda>r s. case b r of
                   Succeeds \<Rightarrow> Returns None (fst s, Suc (snd s))
                 | Fails \<Rightarrow> Returns (Some (PluginError ''bad input'')) (fst s, Suc (snd s))
                 | Crashes \<Rightarrow> Panics (fst s, Suc (snd s))),
      FilterMsg = (\<lambda>r s. case b r of
                   Succeeds \<Rightarrow> Returns () (fst s, Suc (snd s))
                 | Fails \<Rightarrow> Returns () ((fst s)\<lparr>Blocked := True\<rparr>, Suc (snd s))
                 | Crashes \<Rightarrow> Panics (fst s, Suc (snd s))),
      Event = (\<lambda>r e w. case b r of
                   Succeeds \<Rightarrow> Returns () (Suc w)
                 | Fails \<Rightarrow> Returns () (Suc w)
                 | Crashes \<Rightarrow> Panics (Suc w)),
      Post = (\<lambda>e w. (None, w))\<rparr>"

definition example_message :: Message where
  "example_message =
     \<lparr>Uuid = [], Timestamp = None, Type = None, Logger = None, Severity = None,
      Payload = None, EnvVersion = None, Pid = None, Hostname = None, Fields = nil_slice\<rparr>"

definition example_config :: PipelineConfig where
  "example_config =
     \<lparr>DefaultDecoder = ''json'',
      DefaultFilterChain = ''default'',
      FilterChains =
        [''default'' \<mapsto> \<lparr>fc_Filters = [''f1'', ''f2'', ''f3''],
                           fc_Outputs = [''log'', ''counter'', ''ghost'']\<rparr>],
      LocateChain = (\<lambda>m. ([], False)),
      cfg_Inputs = [(''udp'', \<lparr>wrapper_name = ''udp'', global = Some 9\<rparr>)],
      cfg_Decoders = [(''json'', \<lparr>wrapper_name = ''json'', global = None\<rparr>)],
      cfg_Filters = [(''f1'', \<lparr>wrapper_name = ''f1'', global = Some 1\<rparr>),
                     (''f2'', \<lparr>wrapper_name = ''f2'', global = None\<rparr>),
                     (''f3'', \<lparr>wrapper_name = ''f3'', global = Some 3\<rparr>)],
      cfg_Outputs = [(''log'', \<lparr>wrapper_name = ''log'', global = Some 4\<rparr>),
                     (''counter'', \<lparr>wrapper_name = ''counter'', global = None\<rparr>)],
      PoolSize = 4\<rparr>"

definition example_pack :: PipelinePack where
  "example_pack =
     \<lparr>MsgBytes = \<lparr>elems = [1, 2], spare = [0, 0]\<rparr>,
      Message = example_message,
      Config = example_config,
      Decoder = ''json'',
      Decoders = [''json'' \<mapsto> 0],
      Filters = [''f1'' \<mapsto> 1, ''f2'' \<mapsto> 2, ''f3'' \<mapsto> 3],
      OutputChans = [''log'' \<mapsto> 10, ''counter'' \<mapsto> 11],
      Decoded = False,
      Blocked = False,
      FilterChain = ''default'',
      ChainCount = 0,
      OutputNames = []\<rparr>"

definition example_state :: "PipelinePack \<Rightarrow> nat pstate" where
  "example_state p = \<lparr>pack = p, world = 0, trace = []\<rparr>"

text \<open>
  A recycler on byte buffers: \<open>PrepOutData\<close> writes a byte and then succeeds, fails or
  crashes; \<open>ZeroOutData\<close> empties the buffer, or crashes.
\<close>

definition example_recycler :: "behaviour \<Rightarrow> behaviour \<Rightarrow> byte list DataRecycler" where
  "example_recycler prep zero =
     \<lparr>ZeroOutData = (\<lambda>d. case zero of
                       Succeeds \<Rightarrow> Returns () []
                     | Fails \<Rightarrow> Returns () []
                     | Crashes \<Rightarrow> Panics d),
      PrepOutData = (\<lambda>pk d timeout. case prep of
                       Succeeds \<Rightarrow> Returns None (d @ [42])
                     | Fails \<Rightarrow> Returns (Some (PluginError ''no payload'')) (d @ [42])
                     | Crashes \<Rightarrow> Panics (d @ [42]))\<rparr>"

definition example_runner :: "byte list Runner" where
  "example_runner =
     \<lparr>outData = None, recycleChan = [0, 1], dataChan = [], contents = (\<lambda>i. []),
      runner_log = []\<rparr>"

text \<open>
  A message with every scalar attribute set and one integer field \<open>count\<close> of value \<open>n\<close>.
\<close>

definition count_field :: "int64 \<Rightarrow> Field" where
  "count_field n =
     (NewFieldInit ''count'' Field_INTEGER Field_RAW)\<lparr>ValueInteger := \<lparr>elems = [n], spare = []\<rparr>\<rparr>"

definition count_message :: "int64 \<Rightarrow> Message" where
  "count_message n =
     \<lparr>Uuid = replicate 16 0, Timestamp = Some 1360093193916612000, Type = Some ''timer'',
      Logger = Some ''blah'', Severity = Some 6, Payload = Some ''51'',
      EnvVersion = Some ''0.8'', Pid = Some 46543, Hostname = Some ''example.local'',
      Fields = \<lparr>elems = [Some (count_field n)], spare = []\<rparr>\<rparr>"

section \<open>Properties of the message API\<close>

lemma store_grow_elems: "elems (store (len s) x (grow z s)) = elems s @ [x]"
  by (simp add: store_def grow_def len_def cap_def)

lemma copy_bytes_fresh: "copy_bytes (replicate (length b) z) b = b"
  by (simp add: copy_bytes_def)

text \<open>
  A value whose type differs from the declared one is refused, and the field is left as
  it was; so is a value of an unsupported kind.
\<close>

lemma AddValue_mismatch:
  assumes "getValueType v = Some (t', None)" and "ValueType fld = Some t" and "t' \<noteq> t"
  shows "AddValue (Some fld) v = Returns (Some (TypeMismatch t t')) (Some fld)"
  using assms by (simp add: AddValue_def)

lemma AddValue_unsupported:
  assumes "getValueType v = Some (t', Some e)"
  shows "AddValue (Some fld) v = Returns (Some e) (Some fld)"
  using assms by (simp add: AddValue_def)

text \<open>
  A string, a slice of bytes, a signed integer, a float or a bool is appended to the
  sequence of a field of its type, and nothing else of the field changes.
\<close>

lemma AddValue_string:
  assumes "ValueType fld = Some Field_STRING"
  shows "\<exists>g. AddValue (Some fld) (Str s) = Returns None (Some g)
           \<and> elems (ValueString g) = elems (ValueString fld) @ [s]
           \<and> g\<lparr>ValueString := ValueString fld\<rparr> = fld"
  using assms by (simp add: AddValue_def Let_def store_grow_elems)

lemma AddValue_bytes:
  assumes "ValueType fld = Some Field_BYTES"
  shows "\<exists>g. AddValue (Some fld) (ByteSeq KSlice b) = Returns None (Some g)
           \<and> elems (ValueBytes g) = elems (ValueBytes fld) @ [b]
           \<and> g\<lparr>ValueBytes := ValueBytes fld\<rparr> = fld"
  using assms by (simp add: AddValue_def Let_def store_grow_elems copy_bytes_fresh)

lemma AddValue_integer:
  assumes "ValueType fld = Some Field_INTEGER"
  shows "\<exists>g. AddValue (Some fld) (IntV k i) = Returns None (Some g)
           \<and> elems (ValueInteger g) = elems (ValueInteger fld) @ [i]
           \<and> g\<lparr>ValueInteger := ValueInteger fld\<rparr> = fld"
  using assms by (simp add: AddValue_def Let_def store_grow_elems)

lemma AddValue_double:
  assumes "ValueType fld = Some Field_DOUBLE"
  shows "\<exists>g. AddValue (Some fld) (FloatV k d) = Returns None (Some g)
           \<and> elems (ValueDouble g) = elems (ValueDouble fld) @ [d]
           \<and> g\<lparr>ValueDouble := ValueDouble fld\<rparr> = fld"
  using assms by (simp add: AddValue_def Let_def store_grow_elems)

lemma AddValue_bool:
  assumes "ValueType fld = Some Field_BOOL"
  shows "\<exists>g. AddValue (Some fld) (BoolV b) = Returns None (Some g)
           \<and> elems (ValueBool g) = elems (ValueBool fld) @ [b]
           \<and> g\<lparr>ValueBool := ValueBool fld\<rparr> = fld"
  using assms by (simp add: AddValue_def Let_def store_grow_elems)

text \<open>
  A slice of anything but bytes is typed \<open>Field_STRING\<close> by \<open>getValueType\<close>: a string
  field takes it, and stores the placeholder of \<open>reflect.Value.String\<close>.
\<close>

lemma AddValue_int_slice_accepted:
  "AddValue (Some (NewFieldInit ''foo'' Field_STRING Field_RAW)) (OtherSeq KSlice ''[]int'')
     = Returns None (Some ((NewFieldInit ''foo'' Field_STRING Field_RAW)
                         \<lparr>ValueString := \<lparr>elems = [''<[]int Value>''], spare = []\<rparr>\<rparr>))"
  by (simp add: AddValue_def NewFieldInit_def nil_slice_def grow_def len_def cap_def store_def)

text \<open>
  Claim C1: for a field of declared value type \<open>t\<close>, \<open>AddValue\<close> returns an error and
  leaves the field unchanged when the value's type differs from \<open>t\<close>, and appends the
  value and returns nil when it equals \<open>t\<close>.  The first half holds (\<open>AddValue_mismatch\<close>),
  and the second for strings, byte slices, integers, floats and bools.  It fails for an
  array of bytes: \<open>getValueType\<close> types the array \<open>[2]byte{97, 98}\<close> as \<open>Field_BYTES\<close>,
  and on a bytes field \<open>AddValue\<close> then grows \<open>ValueBytes\<close> by a nil entry and panics in
  \<open>reflect.Value.Bytes\<close>, which takes slices only.
\<close>

theorem AddValue_byte_array_panics:
  "getValueType (ByteSeq KArray [97, 98]) = Some (Field_BYTES, None)
   \<and> AddValue (Some (NewFieldInit ''foo'' Field_BYTES Field_RAW)) (ByteSeq KArray [97, 98])
       = Panics (Some ((NewFieldInit ''foo'' Field_BYTES Field_RAW)
                         \<lparr>ValueBytes := \<lparr>elems = [[]], spare = []\<rparr>\<rparr>))"
  by (simp add: AddValue_def NewFieldInit_def nil_slice_def grow_def len_def cap_def)

text \<open>
  Claim C10: on a nil \<open>*Message\<close> every setter and \<open>AddField\<close> return without effect and
  without panic, and on a nil \<open>*Field\<close> \<open>AddValue\<close> returns an error, whatever the
  argument is.
\<close>

theorem nil_receivers:
  "SetUuid None u = None \<and> SetTimestamp None ts = None \<and> SetType None s1 = None
   \<and> SetLogger None s2 = None \<and> SetSeverity None n1 = None \<and> SetPayload None s3 = None
   \<and> SetEnvVersion None s4 = None \<and> SetPid None n2 = None \<and> SetHostname None s5 = None
   \<and> AddField None f = None
   \<and> AddValue None v = Returns (Some FieldIsNil) None"
  by (simp add: SetUuid_def SetTimestamp_def SetType_def SetLogger_def SetSeverity_def
      SetPayload_def SetEnvVersion_def SetPid_def SetHostname_def AddField_def AddValue_def)

section \<open>Properties of the JSON codec\<close>

lemma serialize_count_field:
  "serialize_map C [Some (count_field n)] = Some ''{<something_else_here>}''"
  by (simp add: serialize_map_def count_field_def NewFieldInit_def GetValueType_def getter_def)

lemma count_message_fields: "elems (Fields (count_message n)) = [Some (count_field n)]"
  by (simp add: count_message_def)

lemma MarshalJSON_cong:
  assumes "Timestamp a = Timestamp b" "Type a = Type b" "Logger a = Logger b"
    "Severity a = Severity b" "Payload a = Payload b" "EnvVersion a = EnvVersion b"
    "Pid a = Pid b" "Hostname a = Hostname b"
    "serialize_map C (elems (Fields a)) = serialize_map C (elems (Fields b))"
  shows "MarshalJSON C a = MarshalJSON C b"
  unfolding MarshalJSON_def assms ..

lemma MarshalJSON_defined:
  assumes "Timestamp a = Some ts" "serialize_map C (elems (Fields a)) = Some js"
  shows "MarshalJSON C a \<noteq> None"
  using assms by (simp add: MarshalJSON_def)

text \<open>
  Claim C8: \<open>MarshalJSON\<close> followed by \<open>UnmarshalJSON\<close> gives back a message that
  \<open>Equals\<close> the original, the identifier apart.  \<open>serialize_map\<close> writes an integer field
  as the text \<open><something_else_here>\<close>, whatever its name and value: two messages that
  differ in the value of an integer field, and so are not \<open>Equals\<close>, have the same
  encoding (which is not JSON either).  No decoder can give both back.
\<close>

theorem MarshalJSON_forgets_integer_field:
  "MarshalJSON C (count_message 1) = MarshalJSON C (count_message 2)
   \<and> MarshalJSON C (count_message 1) \<noteq> None
   \<and> serialize_map C (elems (Fields (count_message 1))) = Some ''{<something_else_here>}''
   \<and> Uuid (count_message 1) = Uuid (count_message 2)
   \<and> \<not> Equals (count_message 1) (count_message 2)"
proof -
  have f: "serialize_map C (elems (Fields (count_message n))) = Some ''{<something_else_here>}''" for n
    by (simp add: count_message_fields serialize_count_field)
  have same: "MarshalJSON C (count_message 1) = MarshalJSON C (count_message 2)"
    by (rule MarshalJSON_cong) (simp_all add: f, simp_all add: count_message_def)
  have "Timestamp (count_message 1) = Some 1360093193916612000"
    by (simp add: count_message_def)
  then have defined: "MarshalJSON C (count_message 1) \<noteq> None"
    using f by (rule MarshalJSON_defined)
  have u: "Uuid (count_message 1) = Uuid (count_message 2)"
    by (simp add: count_message_def)
  have "\<not> Field_DeepEqual (count_field 1) (count_field 2)"
    by (simp add: Field_DeepEqual_def count_field_def)
  then have ne: "\<not> Equals (count_message 1) (count_message 2)"
    by (simp add: Equals_def count_message_fields)
  from same defined f u ne show ?thesis by blast
qed

text \<open>
  Whatever function of the encoded text stands for \<open>UnmarshalJSON\<close>, its result cannot
  equal both messages, even with the identifier put back.
\<close>

lemma no_decoder_restores_integer_fields:
  assumes "MarshalJSON C (count_message 1) = Some js"
  shows "\<not> (Equals ((unmarshal js)\<lparr>Uuid := Uuid (count_message 1)\<rparr>) (count_message 1)
          \<and> Equals ((unmarshal js)\<lparr>Uuid := Uuid (count_message 2)\<rparr>) (count_message 2))"
proof
  assume a: "Equals ((unmarshal js)\<lparr>Uuid := Uuid (count_message 1)\<rparr>) (count_message 1)
          \<and> Equals ((unmarshal js)\<lparr>Uuid := Uuid (count_message 2)\<rparr>) (count_message 2)"
  then have "list_all2 (rel_option Field_DeepEqual) (elems (Fields (unmarshal js))) [Some (count_field 1)]"
    and "list_all2 (rel_option Field_DeepEqual) (elems (Fields (unmarshal js))) [Some (count_field 2)]"
    by (simp_all add: Equals_def count_message_fields)
  then obtain x where "rel_option Field_DeepEqual x (Some (count_field 1))"
    and "rel_option Field_DeepEqual x (Some (count_field 2))"
    by (auto simp: list_all2_Cons2)
  then obtain g where "Field_DeepEqual g (count_field 1)" "Field_DeepEqual g (count_field 2)"
    by (cases x) auto
  then show False
    by (simp add: Field_DeepEqual_def count_field_def)
qed

section \<open>Properties of the dispatcher\<close>

subsection \<open>Zeroing\<close>

lemma fold_delete: "fold (\<lambda>k m. AList.delete k m) ks ys = filter (\<lambda>(k, v). k \<notin> set ks) ys"
proof (induction ks arbitrary: ys)
  case Nil
  then show ?case by simp
next
  case (Cons k ks)
  have "filter (\<lambda>(k', v). k' \<notin> set ks) (AList.delete k ys) = filter (\<lambda>(k', v). k' \<notin> set (k # ks)) ys"
    by (induction ys) (auto simp: AList.delete_eq)
  with Cons show ?case by simp
qed

lemma fold_delete_all: "fold (\<lambda>k m. AList.delete k m) (map fst ys) ys = []"
  unfolding fold_delete by (induction ys) (auto simp: filter_empty_conv)

text \<open>
  Claim C5: \<open>Zero\<close> widens \<open>MsgBytes\<close> to its capacity, resets \<open>Decoder\<close> and
  \<open>FilterChain\<close> to the defaults of the configuration, clears \<open>Decoded\<close> and \<open>Blocked\<close>
  and empties \<open>OutputNames\<close>; it leaves the message, the configuration and the maps of
  decoders, filters and output channels as they are (and \<open>ChainCount\<close> too).
\<close>

theorem Zero_resets:
  "elems (MsgBytes (Zero self)) = elems (MsgBytes self) @ spare (MsgBytes self)
   \<and> len (MsgBytes (Zero self)) = cap (MsgBytes self)
   \<and> cap (MsgBytes (Zero self)) = cap (MsgBytes self)
   \<and> Decoder (Zero self) = DefaultDecoder (Config self)
   \<and> Decoded (Zero self) = False
   \<and> Blocked (Zero self) = False
   \<and> FilterChain (Zero self) = DefaultFilterChain (Config self)
   \<and> OutputNames (Zero self) = []
   \<and> Message (Zero self) = Message self
   \<and> Config (Zero self) = Config self
   \<and> Decoders (Zero self) = Decoders self
   \<and> Filters (Zero self) = Filters self
   \<and> OutputChans (Zero self) = OutputChans self
   \<and> ChainCount (Zero self) = ChainCount self"
  by (simp add: Zero_def fold_delete_all full_slice_def len_def cap_def)

subsection \<open>The decode stage\<close>

text \<open>
  Claim C6: for a Pack that is not decoded, (1) a decoder name that is not in the
  decoder map makes \<open>pipeline\<close> return \<open>recycle = true\<close> with the Pack and the plugins
  untouched and nothing but a log line in the trace; (2) an error of \<open>Decode\<close> makes it
  return \<open>recycle = true\<close> with the Pack as the decoder left it, \<open>Decoded\<close> not being
  set by the dispatcher; (3) after a successful \<open>Decode\<close> the dispatcher sets \<open>Decoded\<close>
  and goes on with the filter stage.
\<close>

theorem decode_stage:
  assumes "\<not> Decoded (pack st)"
  shows "(Decoders (pack st) (Decoder (pack st)) = None \<longrightarrow>
            pipeline P st = Returns True (emit [Log (DecoderMissing (Decoder (pack st)))] st))
       \<and> (\<forall>d err p w.
            Decoders (pack st) (Decoder (pack st)) = Some d
            \<and> Decode P d (pack st, world st) = Returns (Some err) (p, w) \<longrightarrow>
            pipeline P st =
              Returns True
                (emit [DecodeCall (Decoder (pack st)), Log (DecodeError (Decoder (pack st)) err)]
                   (st\<lparr>pack := p, world := w\<rparr>)))
       \<and> (\<forall>d p w.
            Decoders (pack st) (Decoder (pack st)) = Some d
            \<and> Decode P d (pack st, world st) = Returns None (p, w) \<longrightarrow>
            pipeline P st =
              pipeline_filters_and_outputs P
                (emit [DecodeCall (Decoder (pack st))] (st\<lparr>pack := p\<lparr>Decoded := True\<rparr>, world := w\<rparr>)))"
  using assms by (simp add: pipeline_def Let_def)

theorem decode_stage_witness:
  "pipeline (example_plugins (\<lambda>r. Succeeds)) (example_state (example_pack\<lparr>Decoder := ''nope''\<rparr>))
     = Returns True \<lparr>pack = example_pack\<lparr>Decoder := ''nope''\<rparr>, world = 0,
                     trace = [Log (DecoderMissing ''nope'')]\<rparr>
   \<and> pipeline (example_plugins (\<lambda>r. Fails)) (example_state example_pack)
     = Returns True \<lparr>pack = example_pack, world = 1,
                     trace = [DecodeCall ''json'',
                              Log (DecodeError ''json'' (PluginError ''bad input''))]\<rparr>
   \<and> pipeline (example_plugins (\<lambda>r. Succeeds)) (example_state example_pack)
     = pipeline_filters_and_outputs (example_plugins (\<lambda>r. Succeeds))
         \<lparr>pack = example_pack\<lparr>Decoded := True\<rparr>, world = 1, trace = [DecodeCall ''json'']\<rparr>"
proof -
  have n1: "\<not> Decoded (pack (example_state (example_pack\<lparr>Decoder := ''nope''\<rparr>)))"
    and n2: "\<not> Decoded (pack (example_state example_pack))"
    by (simp_all add: example_state_def example_pack_def)
  have m: "Decoders (pack (example_state (example_pack\<lparr>Decoder := ''nope''\<rparr>)))
             (Decoder (pack (example_state (example_pack\<lparr>Decoder := ''nope''\<rparr>)))) = None"
    by (simp add: example_state_def example_pack_def)
  have d: "Decoders (pack (example_state example_pack)) (Decoder (pack (example_state example_pack)))
             = Some 0"
    by (simp add: example_state_def example_pack_def)
  have f: "Decode (example_plugins (\<lambda>r. Fails)) 0
             (pack (example_state example_pack), world (example_state example_pack))
             = Returns (Some (PluginError ''bad input'')) (example_pack, 1)"
    by (simp add: example_plugins_def example_state_def)
  have s: "Decode (example_plugins (\<lambda>r. Succeeds)) 0
             (pack (example_state example_pack), world (example_state example_pack))
             = Returns None (example_pack, 1)"
    by (simp add: example_plugins_def example_state_def)
  have nm: "Decoder (pack (example_state example_pack)) = ''json''"
    "Decoder (pack (example_state (example_pack\<lparr>Decoder := ''nope''\<rparr>))) = ''nope''"
    by (simp_all add: example_state_def example_pack_def)
  from decode_stage[OF n1, of "example_plugins (\<lambda>r. Succeeds)"] m
  have c1: "pipeline (example_plugins (\<lambda>r. Succeeds)) (example_state (example_pack\<lparr>Decoder := ''nope''\<rparr>))
     = Returns True \<lparr>pack = example_pack\<lparr>Decoder := ''nope''\<rparr>, world = 0,
                     trace = [Log (DecoderMissing ''nope'')]\<rparr>"
    by (simp add: nm) (simp add: emit_def example_state_def)
  from decode_stage[OF n2, of "example_plugins (\<lambda>r. Fails)"] d f
  have c2: "pipeline (example_plugins (\<lambda>r. Fails)) (example_state example_pack)
     = Returns True \<lparr>pack = example_pack, world = 1,
                     trace = [DecodeCall ''json'',
                              Log (DecodeError ''json'' (PluginError ''bad input''))]\<rparr>"
    by (simp add: nm) (simp add: emit_def example_state_def)
  from decode_stage[OF n2, of "example_plugins (\<lambda>r. Succeeds)"] d s
  have c3: "pipeline (example_plugins (\<lambda>r. Succeeds)) (example_state example_pack)
     = pipeline_filters_and_outputs (example_plugins (\<lambda>r. Succeeds))
         \<lparr>pack = example_pack\<lparr>Decoded := True\<rparr>, world = 1, trace = [DecodeCall ''json'']\<rparr>"
    by (simp add: nm) (simp add: emit_def example_state_def)
  from c1 c2 c3 show ?thesis by blast
qed

text \<open>
  A panic of \<open>Decode\<close> is not caught: it leaves \<open>pipeline\<close> and the loop of \<open>Run\<close>, and the
  Pack is not recycled.  \<open>safe_decode\<close> would have returned an error.
\<close>

lemma pipeline_decoder_panic:
  assumes "\<not> Decoded (pack st)" and "Decoders (pack st) (Decoder (pack st)) = Some d"
    and "Decode P d (pack st, world st) = Panics (p, w)"
  shows "pipeline P st = Panics (emit [DecodeCall (Decoder (pack st))] (st\<lparr>pack := p, world := w\<rparr>))"
    and "Run_dataChan P st rc = Panics (emit [DecodeCall (Decoder (pack st))] (st\<lparr>pack := p, world := w\<rparr>), rc)"
    and "fst (safe_decode P d (pack st, world st)) = Some DecoderPanic"
  using assms by (simp_all add: pipeline_def Run_dataChan_def safe_decode_def Let_def)

text \<open>
  Claim C2: every call of \<open>Decode\<close> from the dispatcher is panic-wrapped, so that a
  panicking decoder yields a decode error, the Pack is recycled and the loop goes on.
  On the example Pack with a decoder that panics, \<open>pipeline\<close> panics, and so does the
  \<open>dataChan\<close> case of \<open>Run\<close>, with nothing sent on \<open>recycleChan\<close>; the wrapper
  \<open>safe_decode\<close>, which \<open>pipeline\<close> leaves aside, turns the same call into an error.
\<close>

theorem decoder_panic_escapes:
  "pipeline (example_plugins (\<lambda>r. Crashes)) (example_state example_pack)
     = Panics \<lparr>pack = example_pack, world = 1, trace = [DecodeCall ''json'']\<rparr>
   \<and> Run_dataChan (example_plugins (\<lambda>r. Crashes)) (example_state example_pack) []
     = Panics (\<lparr>pack = example_pack, world = 1, trace = [DecodeCall ''json'']\<rparr>, [])
   \<and> fst (safe_decode (example_plugins (\<lambda>r. Crashes)) 0 (example_pack, 0)) = Some DecoderPanic"
proof -
  have dec: "Decoded example_pack = False" "Decoder example_pack = ''json''"
    "Decoders example_pack ''json'' = Some 0"
    by (simp_all add: example_pack_def)
  have call: "Decode (example_plugins (\<lambda>r. Crashes)) 0 (example_pack, 0) = Panics (example_pack, 1)"
    by (simp add: example_plugins_def)
  show ?thesis
    by (simp add: pipeline_def Run_dataChan_def safe_decode_def example_state_def dec call emit_def)
qed

subsection \<open>The filter stage\<close>

lemma filterProcessor_found:
  assumes "FilterChains (Config (pack st)) (chain_name (pack st)) = Some fc"
  shows "filterProcessor P st = run_filters P (fc_Filters fc) (seed_outputs fc st)"
  using assms
  by (auto simp: filterProcessor_def chain_name_def seed_outputs_def Let_def split: prod.splits)

text \<open>
  As long as the Pack is not blocked the loop goes through the filters one by one:
  running a list of filters that leaves the Pack unblocked, and then the rest, is
  running them all.
\<close>

lemma run_filters_append:
  assumes "pre = [] \<or> \<not> Blocked (pack (run_filters P pre st))"
  shows "run_filters P (pre @ rest) st = run_filters P rest (run_filters P pre st)"
  using assms
proof (induction pre arbitrary: st)
  case Nil
  then show ?case by simp
next
  case (Cons f pre)
  let ?st' = "safe_filter P f (Filters (pack st) f) st"
  from Cons.prems have nb: "\<not> Blocked (pack (run_filters P (f # pre) st))" by simp
  show ?case
  proof (cases "Blocked (pack ?st')")
    case True
    with nb show ?thesis by (simp add: Let_def)
  next
    case False
    with nb have "pre = [] \<or> \<not> Blocked (pack (run_filters P pre ?st'))"
      by (simp add: Let_def)
    from Cons.IH[OF this] False show ?thesis by (simp add: Let_def)
  qed
qed

lemma safe_filter_calls:
  "filter_calls (trace (safe_filter P f r st)) =
     filter_calls (trace st) @ (case r of None \<Rightarrow> [] | Some x \<Rightarrow> [f])"
  by (auto simp: safe_filter_def emit_def filter_calls_def split: option.splits outcome.splits)

lemma pipeline_blocked:
  assumes "Decoded (pack st)" and "Blocked (pack (filterProcessor P st))"
  shows "pipeline P st = Returns True (filterProcessor P st)"
  using assms by (simp add: pipeline_def pipeline_filters_and_outputs_def Let_def)

text \<open>
  The wrapper alone: whatever the state and the filter, a panic of \<open>FilterMsg\<close> leaves the
  Pack as the filter left it with \<open>Blocked\<close> set, and the panic is logged; so does the
  call on the nil interface that a name missing from \<open>Filters\<close> yields.
\<close>

lemma safe_filter_panic_blocks:
  assumes "FilterMsg P r (pack s, world s) = Panics (p, w)"
  shows "safe_filter P name (Some r) s =
           emit [FilterCall name, Log (FilterPanic name)] (s\<lparr>pack := p\<lparr>Blocked := True\<rparr>, world := w\<rparr>)"
    and "pack (safe_filter P name (Some r) s) = p\<lparr>Blocked := True\<rparr>"
    and "Blocked (pack (safe_filter P name (Some r) s))"
  using assms by (simp_all add: safe_filter_def emit_def)

lemma safe_filter_nil_blocks: "Blocked (pack (safe_filter P name None s))"
  by (simp add: safe_filter_def emit_def)

text \<open>
  Claim C4.  (1) For every state, filter and name: if \<open>FilterMsg\<close> panics, \<open>safe_filter\<close>
  returns the Pack that the filter left with \<open>Blocked\<close> set to true, and logs the panic;
  the call of a filter that is missing from \<open>Filters\<close> blocks the Pack too.  (2) In
  particular the Pack is blocked after a filter \<open>f\<close> of a chain that panics.  (3) Let the
  chain of a decoded Pack be \<open>pre @ f # post\<close>, let the filters \<open>pre\<close> have run without
  blocking the Pack, and let the Pack be blocked after \<open>f\<close>.  Then \<open>filterProcessor\<close>
  returns in the state right after \<open>f\<close>: no filter of \<open>post\<close> is called; \<open>pipeline\<close>
  returns \<open>recycle = true\<close> in that same state, so nothing is sent to an output; and
  \<open>Run\<close> zeroes the Pack and sends it on \<open>recycleChan\<close>.
\<close>

theorem blocked_filter_short_circuits:
  "(\<forall>s name r p w.
       FilterMsg P r (pack s, world s) = Panics (p, w) \<longrightarrow>
         safe_filter P name (Some r) s =
           emit [FilterCall name, Log (FilterPanic name)] (s\<lparr>pack := p\<lparr>Blocked := True\<rparr>, world := w\<rparr>)
         \<and> pack (safe_filter P name (Some r) s) = p\<lparr>Blocked := True\<rparr>
         \<and> Blocked (pack (safe_filter P name (Some r) s)))
   \<and> (\<forall>s name. Blocked (pack (safe_filter P name None s)))
   \<and> (\<forall>r p w.
         Filters (pack (before_filter P fc pre st)) f = Some r
         \<and> FilterMsg P r (pack (before_filter P fc pre st), world (before_filter P fc pre st))
             = Panics (p, w) \<longrightarrow>
           Blocked (pack (after_filter P fc pre f st))
           \<and> pack (after_filter P fc pre f st) = p\<lparr>Blocked := True\<rparr>)
   \<and> (Decoded (pack st)
       \<and> FilterChains (Config (pack st)) (chain_name (pack st)) = Some fc
       \<and> fc_Filters fc = pre @ f # post
       \<and> (pre = [] \<or> \<not> Blocked (pack (before_filter P fc pre st)))
       \<and> Blocked (pack (after_filter P fc pre f st)) \<longrightarrow>
         filterProcessor P st = after_filter P fc pre f st
         \<and> filter_calls (trace (filterProcessor P st)) =
             filter_calls (trace (before_filter P fc pre st))
               @ (case Filters (pack (before_filter P fc pre st)) f of None \<Rightarrow> [] | Some r \<Rightarrow> [f])
         \<and> pipeline P st = Returns True (after_filter P fc pre f st)
         \<and> Run_dataChan P st recycleChan' =
             Returns () ((after_filter P fc pre f st)\<lparr>pack := Zero (pack (after_filter P fc pre f st))\<rparr>,
                         recycleChan' @ [Zero (pack (after_filter P fc pre f st))]))"
proof -
  let ?st1 = "before_filter P fc pre st"
  let ?st2 = "after_filter P fc pre f st"
  have a: "\<forall>s name r p w.
       FilterMsg P r (pack s, world s) = Panics (p, w) \<longrightarrow>
         safe_filter P name (Some r) s =
           emit [FilterCall name, Log (FilterPanic name)] (s\<lparr>pack := p\<lparr>Blocked := True\<rparr>, world := w\<rparr>)
         \<and> pack (safe_filter P name (Some r) s) = p\<lparr>Blocked := True\<rparr>
         \<and> Blocked (pack (safe_filter P name (Some r) s))"
    by (simp add: safe_filter_def emit_def)
  have n: "\<forall>s name. Blocked (pack (safe_filter P name None s))"
    by (simp add: safe_filter_nil_blocks)
  have b: "\<forall>r p w. Filters (pack ?st1) f = Some r
             \<and> FilterMsg P r (pack ?st1, world ?st1) = Panics (p, w) \<longrightarrow>
           Blocked (pack ?st2) \<and> pack ?st2 = p\<lparr>Blocked := True\<rparr>"
    by (simp add: after_filter_def safe_filter_def emit_def)
  have c: "filterProcessor P st = ?st2
         \<and> filter_calls (trace (filterProcessor P st)) =
             filter_calls (trace ?st1) @ (case Filters (pack ?st1) f of None \<Rightarrow> [] | Some r \<Rightarrow> [f])
         \<and> pipeline P st = Returns True ?st2
         \<and> Run_dataChan P st recycleChan' =
             Returns () (?st2\<lparr>pack := Zero (pack ?st2)\<rparr>, recycleChan' @ [Zero (pack ?st2)])"
    if h1: "Decoded (pack st)"
      and h2: "FilterChains (Config (pack st)) (chain_name (pack st)) = Some fc"
      and h3: "fc_Filters fc = pre @ f # post"
      and h4: "pre = [] \<or> \<not> Blocked (pack ?st1)"
      and h5: "Blocked (pack ?st2)"
  proof -
    have "filterProcessor P st = run_filters P (pre @ f # post) (seed_outputs fc st)"
      using h2 h3 by (simp add: filterProcessor_found)
    also have "\<dots> = run_filters P (f # post) ?st1"
      using h4 unfolding before_filter_def by (rule run_filters_append)
    also have "\<dots> = ?st2"
      using h5 by (simp add: after_filter_def Let_def)
    finally have fp: "filterProcessor P st = ?st2" .
    have fc: "filter_calls (trace (filterProcessor P st)) =
             filter_calls (trace ?st1) @ (case Filters (pack ?st1) f of None \<Rightarrow> [] | Some r \<Rightarrow> [f])"
      unfolding fp by (simp add: after_filter_def safe_filter_calls)
    have pl: "pipeline P st = Returns True ?st2"
      using pipeline_blocked[of st P] h1 h5 fp by simp
    have rn: "Run_dataChan P st recycleChan' =
             Returns () (?st2\<lparr>pack := Zero (pack ?st2)\<rparr>, recycleChan' @ [Zero (pack ?st2)])"
      by (simp add: Run_dataChan_def pl Let_def)
    from fp fc pl rn show ?thesis by blast
  qed
  from a n b c show ?thesis by blast
qed

theorem blocked_filter_short_circuits_witness:
  "Decoded (pack (example_state (example_pack\<lparr>Decoded := True\<rparr>)))
   \<and> fc_Filters \<lparr>fc_Filters = [''f1'', ''f2'', ''f3''], fc_Outputs = [''log'', ''counter'', ''ghost'']\<rparr>
       = [''f1''] @ ''f2'' # [''f3'']
   \<and> FilterMsg (example_plugins (\<lambda>r. if r = 2 then Crashes else Succeeds)) 2
        (example_pack\<lparr>Decoded := True,
             OutputNames := [(''log'', True), (''counter'', True), (''ghost'', True)]\<rparr>, 1)
       = Panics (example_pack\<lparr>Decoded := True,
             OutputNames := [(''log'', True), (''counter'', True), (''ghost'', True)]\<rparr>, 2)
   \<and> filter_calls (trace (filterProcessor (example_plugins (\<lambda>r. if r = 2 then Crashes else Succeeds))
                              (example_state (example_pack\<lparr>Decoded := True\<rparr>))))
       = [''f1'', ''f2'']
   \<and> pipeline (example_plugins (\<lambda>r. if r = 2 then Crashes else Succeeds))
        (example_state (example_pack\<lparr>Decoded := True\<rparr>))
       = Returns True
           \<lparr>pack = example_pack\<lparr>Decoded := True, Blocked := True,
                  OutputNames := [(''log'', True), (''counter'', True), (''ghost'', True)]\<rparr>,
            world = 2,
            trace = [FilterCall ''f1'', FilterCall ''f2'', Log (FilterPanic ''f2'')]\<rparr>"
proof -
  let ?P = "example_plugins (\<lambda>r. if r = 2 then Crashes else Succeeds)"
  let ?st = "example_state (example_pack\<lparr>Decoded := True\<rparr>)"
  let ?fc = "\<lparr>fc_Filters = [''f1'', ''f2'', ''f3''], fc_Outputs = [''log'', ''counter'', ''ghost'']\<rparr>"
  let ?p1 = "example_pack\<lparr>Decoded := True,
                    OutputNames := [(''log'', True), (''counter'', True), (''ghost'', True)]\<rparr>"
  note inst = blocked_filter_short_circuits[of ?P ?fc "[''f1'']" ?st "''f2''" "[''f3'']" "[]"]
  have h1: "Decoded (pack ?st)"
    by (simp add: example_state_def)
  have h2: "FilterChains (Config (pack ?st)) (chain_name (pack ?st)) = Some ?fc"
    by (simp add: example_state_def example_pack_def example_config_def chain_name_def)
  have h3: "fc_Filters ?fc = [''f1''] @ ''f2'' # [''f3'']"
    by simp
  have b: "before_filter ?P ?fc [''f1''] ?st = \<lparr>pack = ?p1, world = 1, trace = [FilterCall ''f1'']\<rparr>"
    by (simp add: before_filter_def seed_outputs_def chain_name_def example_state_def
        example_pack_def example_config_def example_plugins_def safe_filter_def emit_def Let_def)
  have lookup: "Filters (pack (before_filter ?P ?fc [''f1''] ?st)) ''f2'' = Some 2"
    unfolding b by (simp add: example_pack_def)
  have crash: "FilterMsg ?P 2 (?p1, 1) = Panics (?p1, 2)"
    by (simp add: example_plugins_def)
  then have crash': "FilterMsg ?P 2 (pack (before_filter ?P ?fc [''f1''] ?st),
                                     world (before_filter ?P ?fc [''f1''] ?st)) = Panics (?p1, 2)"
    unfolding b by simp
  have h4: "[''f1''] = [] \<or> \<not> Blocked (pack (before_filter ?P ?fc [''f1''] ?st))"
    unfolding b by (simp add: example_pack_def)
  from inst lookup crash'
  have h5: "Blocked (pack (after_filter ?P ?fc [''f1''] ''f2'' ?st))"
    by blast
  have a: "after_filter ?P ?fc [''f1''] ''f2'' ?st
             = \<lparr>pack = example_pack\<lparr>Decoded := True, Blocked := True,
                    OutputNames := [(''log'', True), (''counter'', True), (''ghost'', True)]\<rparr>,
                world = 2, trace = [FilterCall ''f1'', FilterCall ''f2'', Log (FilterPanic ''f2'')]\<rparr>"
    unfolding after_filter_def b
    by (simp add: example_pack_def example_plugins_def safe_filter_def emit_def numeral_2_eq_2)
  from inst h1 h2 h3 h4 h5
  have "filter_calls (trace (filterProcessor ?P ?st)) =
           filter_calls (trace (before_filter ?P ?fc [''f1''] ?st))
             @ (case Filters (pack (before_filter ?P ?fc [''f1''] ?st)) ''f2'' of None \<Rightarrow> [] | Some r \<Rightarrow> [''f2''])"
    and "pipeline ?P ?st = Returns True (after_filter ?P ?fc [''f1''] ''f2'' ?st)"
    by blast+
  then have "filter_calls (trace (filterProcessor ?P ?st)) = [''f1'', ''f2'']"
    and "pipeline ?P ?st = Returns True
           \<lparr>pack = example_pack\<lparr>Decoded := True, Blocked := True,
                  OutputNames := [(''log'', True), (''counter'', True), (''ghost'', True)]\<rparr>,
            world = 2,
            trace = [FilterCall ''f1'', FilterCall ''f2'', Log (FilterPanic ''f2'')]\<rparr>"
    unfolding a b by (simp_all add: filter_calls_def example_pack_def)
  with h1 h3 crash show ?thesis by blast
qed

subsection \<open>The fan-out stage\<close>

lemma sends_of_append: "sends_of (xs @ ys) = sends_of xs @ sends_of ys"
  by (simp add: sends_of_def)

lemma sends_entry:
  "sends_of (entry_events chans e) =
     (if snd e then (case chans (fst e) of None \<Rightarrow> [] | Some c \<Rightarrow> [(fst e, c)]) else [])"
  by (simp add: entry_events_def sends_of_def split: option.splits)

text \<open>The loop adds to the counter the number of sends, and to the trace one entry's events after the other.\<close>

lemma fan_out_acc:
  "fan_out chans xs (i, es) =
     (i + length (sends_of (concat (map (entry_events chans) xs))),
      es @ concat (map (entry_events chans) xs))"
proof (induction xs arbitrary: i es)
  case Nil
  then show ?case by (simp add: sends_of_def)
next
  case (Cons x xs)
  obtain n use where x: "x = (n, use)" by (cases x)
  show ?case
  proof (cases use)
    case False
    then show ?thesis
      by (simp add: x Cons.IH sends_of_append sends_entry entry_events_def)
  next
    case True
    then show ?thesis
      by (cases "chans n") (simp_all add: x Cons.IH sends_of_append sends_entry, simp_all add: entry_events_def)
  qed
qed

lemma count_sends:
  assumes "distinct (map fst xs)"
  shows "count_list (sends_of (concat (map (entry_events chans) xs))) (n, c) =
           (if map_of xs n = Some True \<and> chans n = Some c then 1 else 0)"
  using assms
proof (induction xs)
  case Nil
  then show ?case by (simp add: sends_of_def)
next
  case (Cons x xs)
  obtain k use where x: "x = (k, use)" by (cases x)
  from Cons.prems have notin: "k \<notin> fst ` set xs" and d: "distinct (map fst xs)"
    by (auto simp: x)
  have nk: "map_of xs k = None"
    using notin by (simp add: map_of_eq_None_iff)
  have ih: "count_list (sends_of (concat (map (entry_events chans) xs))) (n, c) =
           (if map_of xs n = Some True \<and> chans n = Some c then 1 else 0)"
    using Cons.IH d by blast
  have first: "count_list (sends_of (entry_events chans (k, use))) (n, c) =
           (if n = k \<and> use \<and> chans n = Some c then 1 else 0)"
    unfolding sends_entry by (cases "chans k"; cases use) auto
  have "count_list (sends_of (concat (map (entry_events chans) (x # xs)))) (n, c) =
        (if n = k \<and> use \<and> chans n = Some c then 1 else 0)
        + (if map_of xs n = Some True \<and> chans n = Some c then 1 else 0)"
    by (simp add: x sends_of_append first ih)
  also have "\<dots> = (if map_of (x # xs) n = Some True \<and> chans n = Some c then 1 else 0)"
    using nk by (auto simp: x)
  finally show ?case .
qed

lemma missing_logged:
  "Log (OutputMissing n) \<in> set (concat (map (entry_events chans) xs))
     \<longleftrightarrow> ((n, True) \<in> set xs \<and> chans n = None)"
  by (induction xs) (auto simp: entry_events_def split: option.splits if_splits)

text \<open>
  Claim C3: for a decoded Pack that leaves the filters unblocked, (1) \<open>pipeline\<close> returns
  \<open>recycle = true\<close> exactly when the fan-out loop made no send; (2) the Pack is sent
  once for each name that \<open>OutputNames\<close> maps to true and \<open>OutputChans\<close> maps to a channel,
  on that channel, and nowhere else; (3) a name mapped to true with no channel is
  logged and skipped; (4) \<open>Run\<close> zeroes the Pack and sends it on \<open>recycleChan\<close> exactly
  when there was no send.  The keys of the map \<open>OutputNames\<close> are distinct.
\<close>

theorem fan_out_exactly_once:
  assumes "Decoded (pack st)"
    and "\<not> Blocked (pack (filterProcessor P st))"
    and "distinct (map fst (OutputNames (pack (filterProcessor P st))))"
  shows "pipeline P st = Returns (sends_of (fan_out_events (pack (filterProcessor P st))) = [])
                           (emit (fan_out_events (pack (filterProcessor P st))) (filterProcessor P st))
     \<and> (\<forall>n c. count_list (sends_of (fan_out_events (pack (filterProcessor P st)))) (n, c) =
           (if map_of (OutputNames (pack (filterProcessor P st))) n = Some True
               \<and> OutputChans (pack (filterProcessor P st)) n = Some c then 1 else 0))
     \<and> (\<forall>n. Log (OutputMissing n) \<in> set (fan_out_events (pack (filterProcessor P st)))
           \<longleftrightarrow> (map_of (OutputNames (pack (filterProcessor P st))) n = Some True
                 \<and> OutputChans (pack (filterProcessor P st)) n = None))
     \<and> Run_dataChan P st recycleChan' =
         (if sends_of (fan_out_events (pack (filterProcessor P st))) = []
          then Returns () ((emit (fan_out_events (pack (filterProcessor P st))) (filterProcessor P st))
                              \<lparr>pack := Zero (pack (filterProcessor P st))\<rparr>,
                           recycleChan' @ [Zero (pack (filterProcessor P st))])
          else Returns () (emit (fan_out_events (pack (filterProcessor P st))) (filterProcessor P st),
                           recycleChan'))"
proof -
  let ?st1 = "filterProcessor P st"
  let ?es = "fan_out_events (pack ?st1)"
  have fo: "fan_out (OutputChans (pack ?st1)) (OutputNames (pack ?st1)) (0, [])
              = (length (sends_of ?es), ?es)"
    by (simp add: fan_out_acc fan_out_events_def)
  have p: "pipeline P st = Returns (sends_of ?es = []) (emit ?es ?st1)"
    using assms(1,2) by (simp add: pipeline_def pipeline_filters_and_outputs_def fo Let_def)
  have c: "\<forall>n c. count_list (sends_of ?es) (n, c) =
           (if map_of (OutputNames (pack ?st1)) n = Some True
               \<and> OutputChans (pack ?st1) n = Some c then 1 else 0)"
    using count_sends[OF assms(3)] by (simp add: fan_out_events_def fan_out_acc)
  have m: "\<forall>n. Log (OutputMissing n) \<in> set ?es
           \<longleftrightarrow> (map_of (OutputNames (pack ?st1)) n = Some True
                 \<and> OutputChans (pack ?st1) n = None)"
    using assms(3) by (simp add: fan_out_events_def fan_out_acc missing_logged del: set_concat)
  have r: "Run_dataChan P st recycleChan' =
         (if sends_of ?es = []
          then Returns () ((emit ?es ?st1)\<lparr>pack := Zero (pack ?st1)\<rparr>, recycleChan' @ [Zero (pack ?st1)])
          else Returns () (emit ?es ?st1, recycleChan'))"
    by (simp add: Run_dataChan_def p emit_def Let_def)
  from p c m r show ?thesis by blast
qed

lemma example_filterProcessor:
  "filterProcessor (example_plugins (\<lambda>r. Succeeds)) (example_state (example_pack\<lparr>Decoded := True\<rparr>))
     = \<lparr>pack = example_pack\<lparr>Decoded := True,
                  OutputNames := [(''log'', True), (''counter'', True), (''ghost'', True)]\<rparr>,
        world = 3,
        trace = [FilterCall ''f1'', FilterCall ''f2'', FilterCall ''f3'']\<rparr>"
  by (simp add: filterProcessor_def example_state_def example_pack_def example_config_def
      example_plugins_def safe_filter_def emit_def Let_def numeral_3_eq_3)

theorem fan_out_exactly_once_witness:
  "Decoded (pack (example_state (example_pack\<lparr>Decoded := True\<rparr>)))
   \<and> \<not> Blocked (pack (filterProcessor (example_plugins (\<lambda>r. Succeeds))
                        (example_state (example_pack\<lparr>Decoded := True\<rparr>))))
   \<and> distinct (map fst (OutputNames (pack (filterProcessor (example_plugins (\<lambda>r. Succeeds))
                        (example_state (example_pack\<lparr>Decoded := True\<rparr>))))))
   \<and> pipeline (example_plugins (\<lambda>r. Succeeds)) (example_state (example_pack\<lparr>Decoded := True\<rparr>))
       = Returns False
           \<lparr>pack = example_pack\<lparr>Decoded := True,
                  OutputNames := [(''log'', True), (''counter'', True), (''ghost'', True)]\<rparr>,
            world = 3,
            trace = [FilterCall ''f1'', FilterCall ''f2'', FilterCall ''f3'',
                     Send ''log'' 10, Send ''counter'' 11, Log (OutputMissing ''ghost'')]\<rparr>"
proof -
  let ?P = "example_plugins (\<lambda>r. Succeeds)"
  let ?st = "example_state (example_pack\<lparr>Decoded := True\<rparr>)"
  have h1: "Decoded (pack ?st)"
    by (simp add: example_state_def)
  have h2: "\<not> Blocked (pack (filterProcessor ?P ?st))"
    unfolding example_filterProcessor by (simp add: example_pack_def)
  have h3: "distinct (map fst (OutputNames (pack (filterProcessor ?P ?st))))"
    by (simp add: example_filterProcessor)
  have ev: "fan_out_events (pack (filterProcessor ?P ?st))
              = [Send ''log'' 10, Send ''counter'' 11, Log (OutputMissing ''ghost'')]"
    unfolding example_filterProcessor by (simp add: fan_out_events_def example_pack_def)
  from fan_out_exactly_once[OF h1 h2 h3, of "[]"]
  have "pipeline ?P ?st = Returns (sends_of (fan_out_events (pack (filterProcessor ?P ?st))) = [])
                           (emit (fan_out_events (pack (filterProcessor ?P ?st))) (filterProcessor ?P ?st))"
    by blast
  then have "pipeline ?P ?st = Returns False
           \<lparr>pack = example_pack\<lparr>Decoded := True,
                  OutputNames := [(''log'', True), (''counter'', True), (''ghost'', True)]\<rparr>,
            world = 3,
            trace = [FilterCall ''f1'', FilterCall ''f2'', FilterCall ''f3'',
                     Send ''log'' 10, Send ''counter'' 11, Log (OutputMissing ''ghost'')]\<rparr>"
    by (simp add: ev sends_of_def) (simp add: example_filterProcessor emit_def)
  with h1 h2 h3 show ?thesis by blast
qed

subsection \<open>Broadcasting events\<close>

lemma event_calls_append: "event_calls (xs @ ys) = event_calls xs @ event_calls ys"
  by (simp add: event_calls_def)

lemma safe_event_calls:
  "global wrapper = Some g \<Longrightarrow>
   event_calls (snd (safe_plugin_global_event P wrapper e s)) = event_calls (snd s) @ [(g, e)]"
  by (cases "Event P g e (fst s)") (simp_all add: safe_plugin_global_event_def event_calls_def)

lemma notify_wrappers_calls:
  "event_calls (snd (notify_wrappers P e ws s)) =
     event_calls (snd s) @ map (\<lambda>g. (g, e)) (globals_of ws)"
proof (induction ws arbitrary: s)
  case Nil
  then show ?case by (simp add: notify_wrappers_def globals_of_def)
next
  case (Cons x ws)
  obtain name wrapper where x: "x = (name, wrapper)" by (cases x)
  have step: "notify_wrappers P e (x # ws) s =
      notify_wrappers P e ws
        (if global wrapper \<noteq> None then safe_plugin_global_event P wrapper e s else s)"
    by (simp add: notify_wrappers_def x)
  have tail: "globals_of (x # ws) = (case global wrapper of None \<Rightarrow> [] | Some g \<Rightarrow> [g]) @ globals_of ws"
    by (simp add: globals_of_def x)
  show ?case
  proof (cases "global wrapper")
    case None
    then show ?thesis by (simp add: step tail Cons.IH)
  next
    case (Some g)
    then show ?thesis by (simp add: step tail Cons.IH safe_event_calls)
  qed
qed




section \<open>Properties of the Runner adapter\<close>

lemma Runner_entry_points_agree:
  "Runner_FilterMsg R pk self = Runner_Deliver R pk self"
  by (simp add: Runner_FilterMsg_def Runner_Deliver_def)




end
